theory Spec2Isabelle
  imports Complex_Main
begin

unbundle bit_operations_syntax

section \<open>Entities, events and packets (src/entities/uav\_entities.py)\<close>

text \<open>
  Python integers are unbounded and are modelled by \<open>int\<close>. Python and numpy floats are
  modelled by \<open>real\<close>: comparisons are exact, rounding is not modelled. Objects that are
  shared by reference (drones, packets) are named by their position in a roster or in a
  store; \<open>id(self)\<close>, the identifier of events and packets, is an argument of the
  constructors, since it is chosen by the runtime.
\<close>

type_synonym dref = nat  \<comment> \<open>a drone object: its position in \<open>simulator.drones\<close>\<close>
type_synonym pref = nat  \<comment> \<open>a packet object: its address in the packet store\<close>

datatype error = IndexError | ZeroDivisionError | ValueError | NotFinite

text \<open>
  \<open>IndexError\<close>, \<open>ZeroDivisionError\<close> and \<open>ValueError\<close> are the exceptions Python and
  numpy raise. \<open>NotFinite\<close> marks the place where numpy goes on with \<open>inf\<close> or \<open>nan\<close> after
  a division by a zero speed; the real-valued model stops there.
\<close>

record Entity =
  "identifier" :: int
  coords :: "real \<times> real"

text \<open>\<open>Entity.__eq__\<close>: both arguments are entities here, so the \<open>isinstance\<close> test passes.\<close>

definition Entity_eq :: "'a Entity_scheme \<Rightarrow> 'b Entity_scheme \<Rightarrow> bool" where
  "Entity_eq self other = (identifier other = identifier self)"

text \<open>
  \<open>Entity.__hash__\<close> is \<open>hash((self.identifier, self.coords))\<close>. The builtin \<open>hash\<close> of the
  Python runtime is the argument \<open>h\<close>.
\<close>

definition Entity_hash :: "(int \<times> (real \<times> real) \<Rightarrow> 'h) \<Rightarrow> 'a Entity_scheme \<Rightarrow> 'h" where
  "Entity_hash h self = h (identifier self, coords self)"

text \<open>
  The builtin \<open>hash\<close> of CPython (3.8 and later, on a 64-bit platform) on the tuples that
  \<open>Entity.__hash__\<close> builds, for coordinates that are whole numbers. An integer hashes
  to itself modulo \<open>2^61 - 1\<close>, with its sign, and -1 is replaced by -2; a float that is a
  whole number hashes as that integer; a tuple is hashed by the loop of CPython's
  \<open>tuplehash\<close> over the hashes of its items, in unsigned arithmetic modulo \<open>2^64\<close>, and
  the result is read as a signed number. Other coordinates are outside this model,
  which gives \<open>None\<close> for them.
\<close>

definition hash_int :: "int \<Rightarrow> int" where
  "hash_int n =
     (let r = (if n < 0 then - (\<bar>n\<bar> mod (2 ^ 61 - 1)) else \<bar>n\<bar> mod (2 ^ 61 - 1))
      in (if r = - 1 then - 2 else r) mod 2 ^ 64)"

definition xxrotate :: "int \<Rightarrow> int" where
  "xxrotate x = (x * 2 ^ 31) mod 2 ^ 64 + x div 2 ^ 33"

fun tuplehash_lanes :: "int list \<Rightarrow> int \<Rightarrow> int" where
  "tuplehash_lanes [] acc = acc"
| "tuplehash_lanes (lane # rest) acc =
     tuplehash_lanes rest
       ((xxrotate ((acc + lane * 14029467366897019727) mod 2 ^ 64) * 11400714785074694791)
          mod 2 ^ 64)"

definition tuplehash :: "int list \<Rightarrow> int" where
  "tuplehash lanes =
     (let acc = (tuplehash_lanes lanes 2870177450012600261
                  + (int (length lanes) XOR (2870177450012600261 XOR 3527539))) mod 2 ^ 64
      in if acc = 2 ^ 64 - 1 then 1546275796 else acc)"

definition as_signed :: "int \<Rightarrow> int" where
  "as_signed x = (if x \<ge> 2 ^ 63 then x - 2 ^ 64 else x)"

definition cpython_hash :: "int \<times> (real \<times> real) \<Rightarrow> int option" where
  "cpython_hash k =
     (case k of (i, (x, y)) \<Rightarrow>
        if of_int \<lfloor>x\<rfloor> = x \<and> of_int \<lfloor>y\<rfloor> = y
        then Some (as_signed (tuplehash [hash_int i, tuplehash [hash_int \<lfloor>x\<rfloor>, hash_int \<lfloor>y\<rfloor>]]))
        else None)"

record Event = Entity +
  current_time :: int
  deadline :: int

text \<open>
  \<open>Event.__init__\<close>. The registration in \<open>simulator.metrics.events\<close> (skipped for the
  placeholder with coordinates \<open>(-1, -1)\<close> and time \<open>-1\<close>) belongs to the metrics sink,
  which is outside this model.
\<close>

definition Event_init :: "int \<Rightarrow> int \<Rightarrow> real \<times> real \<Rightarrow> int \<Rightarrow> int \<Rightarrow> Event" where
  "Event_init new_id event_duration cs cur_time dl =
     \<lparr> identifier = new_id, coords = cs, current_time = cur_time,
       deadline = (if dl = - 1 then cur_time + event_duration else dl) \<rparr>"

definition Event_is_expired :: "Event \<Rightarrow> int \<Rightarrow> bool" where
  "Event_is_expired self cur_step = (cur_step > deadline self)"

record Packet = Entity +
  time_step_creation :: int
  event_ref :: Event
  TTL :: int
  max_TTL :: int
  number_retransmission_attempt :: int
  last_2_hops :: "dref list"
  time_delivery :: int
  is_move_packet :: bool

text \<open>
  \<open>Packet.__init__\<close>. An event is never changed after its construction, so the packet
  holds its event by value. \<open>optional_data\<close> (a list of anything) is left out. A packet
  built without an event gets the placeholder event, which needs an identifier of its own.
\<close>

definition Packet_init :: "int \<Rightarrow> int \<Rightarrow> int \<Rightarrow> int \<Rightarrow> int \<Rightarrow> Event option \<Rightarrow> Packet" where
  "Packet_init new_id placeholder_id event_duration packets_max_ttl step ev =
     (let event_ref_crafted =
            (case ev of Some e \<Rightarrow> e
             | None \<Rightarrow> Event_init placeholder_id event_duration (- 1, - 1) (- 1) (- 1))
      in \<lparr> identifier = new_id, coords = coords event_ref_crafted,
           time_step_creation = step, event_ref = event_ref_crafted,
           TTL = - 1, max_TTL = packets_max_ttl, number_retransmission_attempt = 0,
           last_2_hops = [], time_delivery = - 1, is_move_packet = False \<rparr>)"

definition increase_TTL_hops :: "'a Packet_scheme \<Rightarrow> 'a Packet_scheme" where
  "increase_TTL_hops self = self\<lparr>TTL := TTL self + 1\<rparr>"

definition add_hop :: "dref \<Rightarrow> 'a Packet_scheme \<Rightarrow> 'a Packet_scheme" where
  "add_hop drone self =
     (let hops = (if length (last_2_hops self) = 2 then drop 1 (last_2_hops self)
                  else last_2_hops self)
      in increase_TTL_hops (self\<lparr>last_2_hops := hops @ [drone]\<rparr>))"

text \<open>\<open>add_hop\<close> called once for each drone of a list, in order.\<close>

definition add_hops :: "dref list \<Rightarrow> 'a Packet_scheme \<Rightarrow> 'a Packet_scheme" where
  "add_hops ds self = foldl (\<lambda>p d. add_hop d p) self ds"

definition Packet_is_expired :: "'a Packet_scheme \<Rightarrow> int \<Rightarrow> bool" where
  "Packet_is_expired self cur_step = (cur_step > deadline (event_ref self))"

section \<open>Indexing\<close>

text \<open>
  A Python list and a numpy array accept an index \<open>i\<close> with \<open>-n \<le> i < n\<close>, a negative
  one counting from the end, and raise \<open>IndexError\<close> otherwise.
\<close>

definition py_index :: "int \<Rightarrow> nat \<Rightarrow> error + nat" where
  "py_index i n =
     (let j = (if i < 0 then int n + i else i)
      in if 0 \<le> j \<and> j < int n then Inr (nat j) else Inl IndexError)"

definition py_get :: "'a list \<Rightarrow> int \<Rightarrow> error + 'a" where
  "py_get xs i = (case py_index i (length xs) of Inl e \<Rightarrow> Inl e | Inr j \<Rightarrow> Inr (xs ! j))"

definition py_set :: "'a list \<Rightarrow> int \<Rightarrow> 'a \<Rightarrow> error + 'a list" where
  "py_set xs i v = (case py_index i (length xs) of Inl e \<Rightarrow> Inl e | Inr j \<Rightarrow> Inr (xs[j := v]))"

section \<open>Drones\<close>

text \<open>
  The class \<open>Simulator\<close> is not among the sources. \<open>Config\<close> holds the attributes of
  \<open>self.simulator\<close> that the code below reads.
\<close>

record Config =
  n_drones :: nat
  cur_step :: int
  event_duration :: int
  packets_max_ttl :: int
  drone_sen_range :: real
  drone_com_range :: real
  drone_max_buffer_size :: int
  drone_max_energy :: real
  routing_algorithm_name :: string

text \<open>
  The attributes of a drone. \<open>Drone_buffer\<close> is the private \<open>__buffer\<close> of class \<open>Drone\<close>,
  a list of references to packets; \<open>tightest_event_deadline\<close> is \<open>None\<close> where the code
  has \<open>nan\<close>; \<open>two_hop_neighbors\<close> is the dictionary in insertion order. The references
  \<open>simulator\<close>, \<open>depot\<close> and \<open>routing_algorithm\<close> are bound once by the constructor and
  are arguments of the functions that follow them.
\<close>

record Drone = Entity +
  path :: "(real \<times> real) list"
  speed :: real
  sensing_range :: real
  communication_range :: real
  buffer_max_size :: int
  residual_energy :: real
  come_back_to_mission :: bool
  last_move_routing :: bool
  tightest_event_deadline :: "int option"
  current_waypoint :: int
  Drone_buffer :: "pref list"
  distance_from_depot :: real
  move_routing :: bool
  drone_power :: int
  link_holding_timer :: real
  tau :: real
  hello_interval :: real
  dist_t1 :: "real list"
  t1 :: "real list"
  dist_t2 :: "real list"
  t2 :: "real list"
  sequence_number :: int
  one_hop_neighbors :: "dref list"
  prev_one_hop_neighbors :: "dref list"
  two_hop_neighbors :: "(int \<times> dref list) list"
  last_mission_coords :: "(real \<times> real) option"

text \<open>\<open>Drone.__init__\<close>; \<open>path[0]\<close> raises \<open>IndexError\<close> on an empty path.\<close>

definition Drone_init :: "'c Config_scheme \<Rightarrow> int \<Rightarrow> (real \<times> real) list \<Rightarrow> real \<Rightarrow> error + Drone" where
  "Drone_init sim ident pth spd =
     (case py_get pth 0 of
        Inl e \<Rightarrow> Inl e
      | Inr c \<Rightarrow> Inr
         \<lparr> identifier = ident, coords = c, path = pth, speed = spd,
           sensing_range = drone_sen_range sim, communication_range = drone_com_range sim,
           buffer_max_size = drone_max_buffer_size sim, residual_energy = drone_max_energy sim,
           come_back_to_mission = False, last_move_routing = False,
           tightest_event_deadline = None, current_waypoint = 0, Drone_buffer = [],
           distance_from_depot = 0, move_routing = False, drone_power = 1,
           link_holding_timer = 0, tau = 1 / 2, hello_interval = 1,
           dist_t1 = replicate (n_drones sim) 2030, t1 = replicate (n_drones sim) 0,
           dist_t2 = replicate (n_drones sim) 2030, t2 = replicate (n_drones sim) 0,
           sequence_number = 0, one_hop_neighbors = [], prev_one_hop_neighbors = [],
           two_hop_neighbors = [], last_mission_coords = None \<rparr>)"

text \<open>\<open>Drone.__hash__\<close> is \<open>hash(self.identifier)\<close>; \<open>h\<close> is the builtin \<open>hash\<close> on integers.\<close>

definition Drone_hash :: "(int \<Rightarrow> 'h) \<Rightarrow> 'a Drone_scheme \<Rightarrow> 'h" where
  "Drone_hash h self = h (identifier self)"

subsection \<open>Hello packets\<close>

record HelloPacket = Packet +
  cur_pos :: "real \<times> real"
  hello_speed :: real
  next_target :: "real \<times> real"
  src_drone :: dref
  hello_link_holding_timer :: real
  hello_sequence_number :: int
  hello_one_hop_neighbors :: "dref list"
  hello_two_hop_neighbors :: "(int \<times> dref list) list"

text \<open>
  \<open>HelloPacket.__init__\<close>: the packet is built on the placeholder event, and the sending
  drone, an object the caller shares, is changed. The result is the packet and the
  drone after the call. \<open>src\<close> is the reference to the sending drone, \<open>src_obj\<close> the
  object.
\<close>

definition HelloPacket_init ::
  "int \<Rightarrow> int \<Rightarrow> 'c Config_scheme \<Rightarrow> dref \<Rightarrow> 'a Drone_scheme \<Rightarrow> int \<Rightarrow> real \<times> real \<Rightarrow> real
   \<Rightarrow> real \<times> real \<Rightarrow> real \<Rightarrow> dref list \<Rightarrow> (int \<times> dref list) list
   \<Rightarrow> HelloPacket \<times> 'a Drone_scheme" where
  "HelloPacket_init new_id placeholder_id sim src src_obj step pos spd target lht n1 n2 =
     (let base = Packet_init new_id placeholder_id (event_duration sim) (packets_max_ttl sim)
                   step None;
          pck = Packet.extend base
                  (HelloPacket.fields pos spd target src lht (sequence_number src_obj) n1 n2)
      in (pck, src_obj\<lparr>sequence_number := sequence_number src_obj + 1\<rparr>))"

subsection \<open>The hello interval\<close>

text \<open>\<open>calc_distances\<close>: the arrays are written at the index \<open>neighbor.identifier\<close>.\<close>

fun calc_distances ::
  "'c Config_scheme \<Rightarrow> 'a Drone_scheme \<Rightarrow> 'b Entity_scheme list \<Rightarrow> error + 'a Drone_scheme" where
  "calc_distances sim self [] = Inr self"
| "calc_distances sim self (neighbor # rest) =
     (case py_set (dist_t2 self) (identifier neighbor)
             (sqrt ((fst (coords self) - fst (coords neighbor))\<^sup>2
                  + (snd (coords self) - snd (coords neighbor))\<^sup>2)) of
        Inl e \<Rightarrow> Inl e
      | Inr d \<Rightarrow>
         (case py_set (t2 (self\<lparr>dist_t2 := d\<rparr>)) (identifier neighbor) (of_int (cur_step sim)) of
            Inl e \<Rightarrow> Inl e
          | Inr t \<Rightarrow> calc_distances sim (self\<lparr>dist_t2 := d, t2 := t\<rparr>) rest))"

text \<open>
  The body of the loop of \<open>update_hello_interval\<close> for one index: \<open>d1\<close>, \<open>tm1\<close>, \<open>d2\<close>,
  \<open>tm2\<close> are \<open>dist_t1[i]\<close>, \<open>t1[i]\<close>, \<open>dist_t2[i]\<close>, \<open>t2[i]\<close>. With \<open>t2[i] = t1[i]\<close> numpy
  divides \<open>delta > 0\<close> by zero, which is \<open>inf\<close>, and the finite numerator divided by \<open>inf\<close>
  is \<open>0\<close>. With a zero speed \<open>dist_t2[i] / speed\<close> is \<open>inf\<close> or \<open>nan\<close>.
\<close>

definition link_duration_at :: "real \<Rightarrow> real \<Rightarrow> real \<Rightarrow> real \<Rightarrow> real \<Rightarrow> real \<Rightarrow> error + real" where
  "link_duration_at com_range spd d1 tm1 d2 tm2 =
     (let delta = d2 - d1
      in if delta > 0 then
           (if tm2 - tm1 = 0 then Inr 0
            else Inr (\<bar>com_range - d2\<bar> / (delta / (tm2 - tm1))))
         else if spd = 0 then Inl NotFinite
         else Inr (d2 / spd))"

text \<open>The loop \<open>for i in range(len(neighbors))\<close>, the arrays being read at the index \<open>i\<close>.\<close>

fun link_durations :: "'a Drone_scheme \<Rightarrow> nat list \<Rightarrow> error + real list" where
  "link_durations self [] = Inr []"
| "link_durations self (i # rest) =
     (if i < length (dist_t2 self) \<and> i < length (dist_t1 self)
         \<and> i < length (t2 self) \<and> i < length (t1 self) then
        (case link_duration_at (communication_range self) (speed self)
                (dist_t1 self ! i) (t1 self ! i) (dist_t2 self ! i) (t2 self ! i) of
           Inl e \<Rightarrow> Inl e
         | Inr v \<Rightarrow>
            (case link_durations self rest of
               Inl e \<Rightarrow> Inl e
             | Inr vs \<Rightarrow> Inr (v # vs)))
      else Inl IndexError)"

text \<open>\<open>np.nanmax\<close> of an array without \<open>nan\<close>; it raises \<open>ValueError\<close> on an empty array.\<close>

fun nanmax :: "real list \<Rightarrow> error + real" where
  "nanmax [] = Inl ValueError"
| "nanmax (v # vs) = Inr (fold max vs v)"

definition update_hello_interval ::
  "'c Config_scheme \<Rightarrow> 'a Drone_scheme \<Rightarrow> 'b Entity_scheme list \<Rightarrow> error + 'a Drone_scheme" where
  "update_hello_interval sim self neighbors =
     (if length neighbors = 0 then Inr self
      else case calc_distances sim self neighbors of
        Inl e \<Rightarrow> Inl e
      | Inr s1 \<Rightarrow>
         (case link_durations s1 [0..<length neighbors] of
            Inl e \<Rightarrow> Inl e
          | Inr link_duration \<Rightarrow>
             (case nanmax link_duration of
                Inl e \<Rightarrow> Inl e
              | Inr longest \<Rightarrow>
                 (let s2 = s1\<lparr>link_holding_timer := longest\<rparr>;
                      s3 = s2\<lparr>hello_interval := of_int \<lceil>tau s2 * link_holding_timer s2\<rceil>\<rparr>
                  in Inr (s3\<lparr>t1 := t2 s3, dist_t1 := dist_t2 s3\<rparr>)))))"

section \<open>The simulator's objects and the feedback calls\<close>

text \<open>
  The depot is a drone with a buffer of its own: the private \<open>__buffer\<close> of class
  \<open>Depot\<close> is another attribute than the one of class \<open>Drone\<close>.
\<close>

record Depot = Drone +
  Depot_buffer :: "pref list"

text \<open>
  The simulator with its objects: the roster \<open>simulator.drones\<close>, the depot, the store of
  the packet objects, and the two collections of \<open>simulator.metrics\<close> that the depot
  writes. A packet is equal to itself only (its identifier is \<open>id(self)\<close>), so the set of
  the metrics is a set of references.
\<close>

record Simulator = Config +
  drones :: "Drone list"
  depot :: Depot
  packets :: "pref \<Rightarrow> Packet"
  drones_packets_to_depot :: "(pref \<times> int) set"
  drones_packets_to_depot_list :: "(pref \<times> int) list"

datatype oref = RosterDrone dref | TheDepot

text \<open>\<open>all_packets\<close>, which class \<open>Depot\<close> overrides.\<close>

definition all_packets :: "'s Simulator_scheme \<Rightarrow> oref \<Rightarrow> pref list" where
  "all_packets sim r =
     (case r of RosterDrone i \<Rightarrow> Drone_buffer (drones sim ! i)
      | TheDepot \<Rightarrow> Depot_buffer (depot sim))"

text \<open>
  The routing algorithm of a drone is reached by dynamic dispatch, so a call of
  \<open>drone.routing_algorithm.feedback(current_drone, id_event, delay, outcome)\<close> is recorded
  as a value: the drone of the roster whose algorithm is called, and the four arguments.
  The loop \<open>for drone in self.simulator.drones\<close> makes one call for each drone, in the
  order of the roster. Every call is taken to return; what an algorithm does with it is
  its own business (\<open>feedback\<close> below for QTAR).
\<close>

record feedback_call =
  fb_target :: dref
  fb_drone :: oref
  fb_id_event :: int
  fb_delay :: int
  fb_outcome :: int

definition broadcast :: "'s Simulator_scheme \<Rightarrow> oref \<Rightarrow> int \<Rightarrow> int \<Rightarrow> int \<Rightarrow> feedback_call list" where
  "broadcast sim current_drone id_event delay outcome =
     map (\<lambda>i. \<lparr> fb_target = i, fb_drone = current_drone, fb_id_event = id_event,
                fb_delay = delay, fb_outcome = outcome \<rparr>)
         [0..<length (drones sim)]"

text \<open>Python's \<open>a in b\<close> on strings: \<open>a\<close> occurs in \<open>b\<close> as a contiguous substring.\<close>

fun str_in :: "string \<Rightarrow> string \<Rightarrow> bool" where
  "str_in a [] = (a = [])"
| "str_in a (c # cs) = (take (length a) (c # cs) = a \<or> str_in a cs)"

text \<open>
  The test \<open>name not in "GEO" "RND" "GEOS"\<close>: Python joins adjacent string literals, so
  the name is looked up in the one string \<open>GEORNDGEOS\<close>.
\<close>

definition baseline_name :: "string \<Rightarrow> bool" where
  "baseline_name name = str_in name ''GEORNDGEOS''"

subsection \<open>Pruning the buffer\<close>

text \<open>\<open>np.nanmin([tightest, d])\<close>, where \<open>tightest\<close> may be \<open>nan\<close> and \<open>d\<close> is a number.\<close>

definition nanmin2 :: "int option \<Rightarrow> int \<Rightarrow> int option" where
  "nanmin2 tightest d = (case tightest of None \<Rightarrow> Some d | Some c \<Rightarrow> Some (min c d))"

text \<open>
  The loop of \<open>update_packets\<close> over the buffer. The accumulator is \<open>tmp_buffer\<close>,
  \<open>tightest_event_deadline\<close>, \<open>to_remove_packets\<close> and the feedback calls made so far.
\<close>

fun update_packets_loop ::
  "'s Simulator_scheme \<Rightarrow> oref \<Rightarrow> int \<Rightarrow> pref list
   \<Rightarrow> pref list \<times> int option \<times> nat \<times> feedback_call list
   \<Rightarrow> pref list \<times> int option \<times> nat \<times> feedback_call list" where
  "update_packets_loop sim current_drone step [] acc = acc"
| "update_packets_loop sim current_drone step (p # rest) (tmp_buffer, tightest, removed, calls) =
     (let pck = packets sim p
      in if \<not> Packet_is_expired pck step then
           update_packets_loop sim current_drone step rest
             (tmp_buffer @ [p], nanmin2 tightest (deadline (event_ref pck)), removed, calls)
         else
           update_packets_loop sim current_drone step rest
             (tmp_buffer, tightest, removed + 1,
              calls @ (if \<not> baseline_name (routing_algorithm_name sim)
                       then broadcast sim current_drone (identifier (event_ref pck))
                              (event_duration sim) (- 1)
                       else [])))"

text \<open>
  \<open>Drone.update_packets\<close>: \<open>self_ref\<close> is the reference to the drone, passed on to the
  feedback as \<open>current_drone\<close>, and \<open>self\<close> is the object. The result is the drone after
  the call and the feedback calls in the order they were made.
\<close>

definition update_packets ::
  "'s Simulator_scheme \<Rightarrow> oref \<Rightarrow> 'a Drone_scheme \<Rightarrow> int \<Rightarrow> 'a Drone_scheme \<times> feedback_call list" where
  "update_packets sim self_ref self step =
     (case update_packets_loop sim self_ref step (Drone_buffer self) ([], None, 0, []) of
        (tmp_buffer, tightest, removed, calls) \<Rightarrow>
          (let s1 = self\<lparr>tightest_event_deadline := tightest, Drone_buffer := tmp_buffer\<rparr>
           in (if length (Drone_buffer s1) = 0 then s1\<lparr>move_routing := False\<rparr> else s1, calls)))"

subsection \<open>The hand-off to the depot\<close>

text \<open>
  The loop of \<open>transfer_notified_packets\<close> over the offloaded packets: the feedback, the
  two metrics, and the delivery time written into the packet object.
\<close>

fun transfer_loop ::
  "oref \<Rightarrow> int \<Rightarrow> pref list \<Rightarrow> 's Simulator_scheme \<times> feedback_call list
   \<Rightarrow> 's Simulator_scheme \<times> feedback_call list" where
  "transfer_loop current_drone step [] acc = acc"
| "transfer_loop current_drone step (p # rest) (sim, calls) =
     (let pck = packets sim p;
          calls' = calls @ (if \<not> baseline_name (routing_algorithm_name sim)
                            then broadcast sim current_drone (identifier (event_ref pck))
                                   (step - current_time (event_ref pck)) 1
                            else []);
          sim1 = sim\<lparr>drones_packets_to_depot := insert (p, step) (drones_packets_to_depot sim)\<rparr>;
          sim2 = sim1\<lparr>drones_packets_to_depot_list := drones_packets_to_depot_list sim1 @ [(p, step)]\<rparr>;
          sim3 = sim2\<lparr>packets := (packets sim2)(p := (packets sim2 p)\<lparr>time_delivery := step\<rparr>)\<rparr>
      in transfer_loop current_drone step rest (sim3, calls'))"

text \<open>
  \<open>Depot.transfer_notified_packets\<close>. \<open>packets_to_offload\<close> is the list object of the
  source's buffer, not a copy: the loop reads it after \<open>self.__buffer += packets_to_offload\<close>,
  which makes a difference only when the source is the depot itself.
\<close>

definition transfer_notified_packets ::
  "'s Simulator_scheme \<Rightarrow> oref \<Rightarrow> int \<Rightarrow> 's Simulator_scheme \<times> feedback_call list" where
  "transfer_notified_packets sim current_drone step =
     (let sim1 = sim\<lparr>depot := (depot sim)\<lparr>Depot_buffer :=
                   Depot_buffer (depot sim) @ all_packets sim current_drone\<rparr>\<rparr>;
          packets_to_offload = all_packets sim1 current_drone
      in transfer_loop current_drone step packets_to_offload (sim1, []))"

section \<open>QTAR routing (src/routing\_algorithms/qtar\_routing.py)\<close>

text \<open>
  The state of a \<open>QTARRouting\<close> object: the dictionary \<open>taken_actions\<close> from the
  identifier of an event to the pair (state, action), the array \<open>q_table\<close>, and the
  weights \<open>A\<close>, \<open>B\<close>, \<open>C\<close>.
\<close>

record QTARRouting =
  taken_actions :: "int \<rightharpoonup> int \<times> int"
  q_table :: "real list"
  weight_A :: real
  weight_B :: real
  weight_C :: real

definition QTARRouting_init :: "'c Config_scheme \<Rightarrow> QTARRouting" where
  "QTARRouting_init sim =
     \<lparr> taken_actions = Map.empty, q_table = replicate (n_drones sim) 0,
       weight_A = 7 / 10, weight_B = 2 / 10, weight_C = 1 / 10 \<rparr>"

text \<open>
  \<open>QTARRouting.feedback\<close>. The entry is deleted before the divisions, which raise
  \<open>ZeroDivisionError\<close> on a zero divisor; an exception ends the call, and the state it
  leaves behind is not part of the result.
\<close>

definition feedback ::
  "'c Config_scheme \<Rightarrow> QTARRouting \<Rightarrow> 'a Drone_scheme \<Rightarrow> int \<Rightarrow> int \<Rightarrow> int \<Rightarrow> error + QTARRouting" where
  "feedback sim self drone id_event delay outcome =
     (case taken_actions self id_event of
        None \<Rightarrow> Inr self
      | Some (state, action) \<Rightarrow>
         (let self1 = self\<lparr>taken_actions := (taken_actions self)(id_event := None)\<rparr>
          in if packets_max_ttl sim = 0 then Inl ZeroDivisionError
             else if drone_max_energy sim = 0 then Inl ZeroDivisionError
             else
               (let delay' = real_of_int delay / real_of_int (packets_max_ttl sim);
                    spd = 1;
                    energy = residual_energy drone / drone_max_energy sim
                in case py_set (q_table self1) action
                          (weight_A self1 * delay' + weight_B self1 * spd + weight_C self1 * energy) of
                     Inl e \<Rightarrow> Inl e
                   | Inr q \<Rightarrow> Inr (self1\<lparr>q_table := q\<rparr>))))"

text \<open>\<open>np.argsort\<close>: the indices of the array in ascending order of their values.\<close>

definition argsort :: "real list \<Rightarrow> nat list" where
  "argsort q = sort_key (\<lambda>i. q ! i) [0..<length q]"

text \<open>
  The candidates of \<open>relay_selection\<close> when no drone near the depot is given: the loop
  over \<open>self.drone.two_hop_neighbors.items()\<close>. The functions \<open>two_hop_speed\<close> and
  \<open>compute_required_speed\<close> of \<open>src.utilities\<close> are not among the sources and are the
  arguments \<open>ths\<close> and \<open>crs\<close>.
\<close>

fun two_hop_candidates ::
  "(Drone \<Rightarrow> Drone \<Rightarrow> Drone \<Rightarrow> real) \<Rightarrow> (Drone \<Rightarrow> int \<Rightarrow> real) \<Rightarrow> 's Simulator_scheme
   \<Rightarrow> Drone \<Rightarrow> 'p Packet_scheme \<Rightarrow> (int \<times> dref list) list \<Rightarrow> error + dref list" where
  "two_hop_candidates ths crs sim me packet [] = Inr []"
| "two_hop_candidates ths crs sim me packet ((one_hop_id, two_hop) # rest) =
     (case py_get (drones sim) one_hop_id of
        Inl e \<Rightarrow> Inl e
      | Inr one_hop_neighbor \<Rightarrow>
         (let chosen = filter
                (\<lambda>r. let neighbor = drones sim ! r;
                          spd = ths me one_hop_neighbor neighbor;
                          remaining_ttl = packets_max_ttl sim - (cur_step sim - time_step_creation packet);
                          required_speed = crs neighbor remaining_ttl
                      in spd > required_speed)
                two_hop
          in case two_hop_candidates ths crs sim me packet rest of
               Inl e \<Rightarrow> Inl e
             | Inr others \<Rightarrow> Inr (chosen @ others)))"

text \<open>
  \<open>QTARRouting.relay_selection\<close>; \<open>me\<close> is \<open>self.drone\<close>. The result is the reference to
  the drone returned and the state of the algorithm after the call.
\<close>

definition relay_selection ::
  "(Drone \<Rightarrow> Drone \<Rightarrow> Drone \<Rightarrow> real) \<Rightarrow> (Drone \<Rightarrow> int \<Rightarrow> real) \<Rightarrow> 's Simulator_scheme
   \<Rightarrow> QTARRouting \<Rightarrow> Drone \<Rightarrow> 'p Packet_scheme \<Rightarrow> int \<Rightarrow> error + dref \<times> QTARRouting" where
  "relay_selection ths crs sim self me packet drone_near_depot_id =
     (let state = identifier me
      in case (if drone_near_depot_id \<noteq> - 1
               then (case py_index drone_near_depot_id (length (drones sim)) of
                       Inl e \<Rightarrow> Inl e
                     | Inr j \<Rightarrow> Inr [j])
               else two_hop_candidates ths crs sim me packet (two_hop_neighbors me)) of
           Inl e \<Rightarrow> Inl e
         | Inr selected_drones \<Rightarrow>
            (let sorted_q_table = argsort (q_table self);
                 neighborsId = map (\<lambda>r. identifier (drones sim ! r)) selected_drones;
                 action = (case find (\<lambda>droneId. int droneId \<in> set neighborsId) sorted_q_table of
                             None \<Rightarrow> - 1
                           | Some droneId \<Rightarrow> int droneId);
                 self1 = self\<lparr>taken_actions :=
                           (taken_actions self)(identifier (event_ref packet) \<mapsto> (state, action))\<rparr>
             in case py_index action (length (drones sim)) of
                  Inl e \<Rightarrow> Inl e
                | Inr j \<Rightarrow> Inr (j, self1)))"

section \<open>Notions used to state the properties\<close>


text \<open>The least of a list of deadlines, \<open>None\<close> for no deadline at all.\<close>

definition min_deadline :: "int list \<Rightarrow> int option" where
  "min_deadline ds = (if ds = [] then None else Some (Min (set ds)))"

text \<open>The packet store after the delivery time \<open>step\<close> was written into the packets of \<open>buf\<close>.\<close>

definition delivered :: "(pref \<Rightarrow> Packet) \<Rightarrow> pref list \<Rightarrow> int \<Rightarrow> pref \<Rightarrow> Packet" where
  "delivered store buf step =
     (\<lambda>q. if q \<in> set buf then (store q)\<lparr>time_delivery := step\<rparr> else store q)"

subsection \<open>A small simulation\<close>

text \<open>
  Two drones and a depot at step 6, with a communication range of 20 and events that
  last 10 steps. \<open>sample_drone\<close> is a drone as \<open>Drone_init\<close> builds it. The first drone
  of the roster holds two packets, of events with the deadlines 5 and 8, and is on its
  way to the depot.
\<close>

definition sample_config :: Config where
  "sample_config =
     \<lparr> n_drones = 2, cur_step = 6, event_duration = 10, packets_max_ttl = 5,
       drone_sen_range = 10, drone_com_range = 20, drone_max_buffer_size = 2,
       drone_max_energy = 100, routing_algorithm_name = ''QTAR'' \<rparr>"

definition sample_drone :: Drone where
  "sample_drone =
     \<lparr> identifier = 0, coords = (0, 0), path = [(0, 0)], speed = 1,
       sensing_range = 10, communication_range = 20,
       buffer_max_size = 2, residual_energy = 100,
       come_back_to_mission = False, last_move_routing = False,
       tightest_event_deadline = None, current_waypoint = 0, Drone_buffer = [],
       distance_from_depot = 0, move_routing = False, drone_power = 1,
       link_holding_timer = 0, tau = 1 / 2, hello_interval = 1,
       dist_t1 = [2030, 2030], t1 = [0, 0],
       dist_t2 = [2030, 2030], t2 = [0, 0],
       sequence_number = 0, one_hop_neighbors = [], prev_one_hop_neighbors = [],
       two_hop_neighbors = [], last_mission_coords = None \<rparr>"

definition sample_packet :: "int \<Rightarrow> int \<Rightarrow> Packet" where
  "sample_packet ident dl =
     Packet_init ident 0 10 5 0 (Some (Event_init (ident + 100) 10 (0, 0) 0 dl))"

definition sample_sim :: Simulator where
  "sample_sim =
     \<lparr> n_drones = 2, cur_step = 6, event_duration = 10, packets_max_ttl = 5,
       drone_sen_range = 10, drone_com_range = 20, drone_max_buffer_size = 2,
       drone_max_energy = 100, routing_algorithm_name = ''QTAR'',
       drones = [sample_drone\<lparr>Drone_buffer := [0, 1], move_routing := True\<rparr>,
                 sample_drone\<lparr>identifier := 1\<rparr>],
       depot = Drone.extend (sample_drone\<lparr>identifier := 2\<rparr>) (Depot.fields []),
       packets = (\<lambda>a. if a = 0 then sample_packet 0 5 else sample_packet 1 8),
       drones_packets_to_depot = {}, drones_packets_to_depot_list = [] \<rparr>"

text \<open>An algorithm that has chosen drone 1 for the packet of event 100.\<close>

definition sample_qtar :: QTARRouting where
  "sample_qtar = (QTARRouting_init sample_config)\<lparr>taken_actions := [100 \<mapsto> (0, 1)]\<rparr>"

section \<open>Properties\<close>

subsection \<open>Packets\<close>

lemma add_hop_TTL: "TTL (add_hop d p) = TTL p + 1"
  by (simp add: add_hop_def increase_TTL_hops_def Let_def)

lemma add_hop_window:
  assumes "last_2_hops p = drop (length ds - 2) ds"
  shows "last_2_hops (add_hop d p) = drop (length (ds @ [d]) - 2) (ds @ [d])"
proof (cases "length ds \<ge> 2")
  case True
  then have len: "length (last_2_hops p) = 2"
    using assms by simp
  have "1 + (length ds - 2) = length ds - 1"
    using True by arith
  then have "drop 1 (drop (length ds - 2) ds) = drop (length ds - 1) ds"
    by (simp only: drop_drop)
  then show ?thesis
    using True len assms by (simp add: add_hop_def increase_TTL_hops_def Let_def)
next
  case False
  then have "length (last_2_hops p) \<noteq> 2" and "last_2_hops p = ds"
    using assms by simp_all
  then show ?thesis
    using False by (simp add: add_hop_def increase_TTL_hops_def Let_def)
qed

lemma add_hops_snoc: "add_hops (ds @ [d]) p = add_hop d (add_hops ds p)"
  by (simp add: add_hops_def)

lemma add_hops_TTL: "TTL (add_hops ds p) = TTL p + int (length ds)"
  by (induction ds rule: rev_induct) (simp_all add: add_hops_def add_hop_TTL)

lemma add_hops_window:
  "last_2_hops p = [] \<Longrightarrow> last_2_hops (add_hops ds p) = drop (length ds - 2) ds"
proof (induction ds rule: rev_induct)
  case Nil
  then show ?case by (simp add: add_hops_def)
next
  case (snoc d ds)
  then show ?case
    using add_hop_window [of "add_hops ds p" ds d] by (simp only: add_hops_snoc)
qed

text \<open>
  C7. A packet as its constructor leaves it, after \<open>add_hop\<close> has been called for each
  drone of \<open>ds\<close> (that is \<open>length ds\<close> times): the hop count is \<open>length ds - 1\<close>, and
  \<open>last_2_hops\<close> is the last two drones of \<open>ds\<close> in order (all of \<open>ds\<close> when it is
  shorter), so it never holds more than two entries and the oldest is dropped when a
  third arrives.
\<close>

theorem add_hop_count_and_window:
  "TTL (add_hops ds (Packet_init i j dur mx step ev)) = int (length ds) - 1
   \<and> last_2_hops (add_hops ds (Packet_init i j dur mx step ev)) = drop (length ds - 2) ds
   \<and> length (last_2_hops (add_hops ds (Packet_init i j dur mx step ev))) \<le> 2"
proof -
  let ?p = "Packet_init i j dur mx step ev"
  have t: "TTL ?p = - 1" and l: "last_2_hops ?p = []"
    by (simp_all add: Packet_init_def Let_def)
  have w: "last_2_hops (add_hops ds ?p) = drop (length ds - 2) ds"
    using add_hops_window [OF l] .
  have "TTL (add_hops ds ?p) = int (length ds) - 1"
    using add_hops_TTL [of ds ?p] t by simp
  moreover have "length (last_2_hops (add_hops ds ?p)) \<le> 2"
    unfolding w by simp
  ultimately show ?thesis using w by simp
qed

text \<open>
  C9. An event is expired at a step exactly when the step is greater than its deadline:
  not at the deadline itself, and at the step after it. A packet is expired exactly when
  the step is greater than the deadline of its event, whatever its hop count is.
\<close>

theorem is_expired_iff_after_deadline:
  "Event_is_expired e step = (step > deadline e)
   \<and> \<not> Event_is_expired e (deadline e)
   \<and> Event_is_expired e (deadline e + 1)
   \<and> Packet_is_expired p step = (step > deadline (event_ref p))
   \<and> Packet_is_expired p step = Event_is_expired (event_ref p) step
   \<and> Packet_is_expired (p\<lparr>TTL := t, max_TTL := m\<rparr>) step = Packet_is_expired p step"
  by (simp add: Event_is_expired_def Packet_is_expired_def)

subsection \<open>Identity of entities\<close>

lemma hash_int_0_1: "hash_int 0 = 0 \<and> hash_int 1 = 1"
  by (simp add: hash_int_def)

lemma tuplehash_of_coords:
  "tuplehash [0, 0] = 9988604870027030631 \<and> tuplehash [1, 0] = 13282122221094607640"
  by (simp add: tuplehash_def xxrotate_def)

lemma tuplehash_of_keys:
  "tuplehash [1, 9988604870027030631] = 10970328860335599220
   \<and> tuplehash [1, 13282122221094607640] = 5815918438011728213"
  by (simp add: tuplehash_def xxrotate_def)

text \<open>
  C8. Two entities with the identifier 1, at the coordinates (0, 0) and (1, 0), are equal
  by \<open>Entity.__eq__\<close>, and \<open>Entity.__hash__\<close> gives them the hashes of the two tuples
  \<open>(1, (0, 0))\<close> and \<open>(1, (1, 0))\<close>, which are different numbers in CPython. Whatever the
  builtin hash \<open>h\<close> is, writing other coordinates \<open>c\<close> into an entity \<open>e\<close> moves its hash
  to the hash of \<open>(identifier e, c)\<close>, while the hash of class \<open>Drone\<close> does not read the
  coordinates.
\<close>

theorem Entity_hash_reads_coords:
  "Entity_eq \<lparr>identifier = 1, coords = (0, 0)\<rparr> \<lparr>identifier = 1, coords = (1, 0)\<rparr>
   \<and> Entity_hash cpython_hash \<lparr>identifier = 1, coords = (0, 0)\<rparr> = Some (- 7476415213373952396)
   \<and> Entity_hash cpython_hash \<lparr>identifier = 1, coords = (1, 0)\<rparr> = Some 5815918438011728213
   \<and> Entity_hash h (e\<lparr>coords := c\<rparr>) = h (identifier e, c)
   \<and> Drone_hash h' (d\<lparr>coords := c\<rparr>) = Drone_hash h' d"
  by (simp add: Entity_eq_def Entity_hash_def Drone_hash_def cpython_hash_def hash_int_0_1
      tuplehash_of_coords tuplehash_of_keys as_signed_def)

lemma Entity_eq_iff_identifier: "Entity_eq a b = (identifier a = identifier b)"
  by (auto simp: Entity_eq_def)

subsection \<open>Hello packets\<close>

text \<open>
  C10. Building a hello packet returns the sending drone with its sequence number
  increased by one and nothing else changed (writing the old number back gives the
  drone as it was), and the packet carries the sequence number the drone had before.
\<close>

theorem HelloPacket_init_sequence_number:
  "let r = HelloPacket_init new_id ph sim src src_obj step pos spd target lht n1 n2
   in snd r = src_obj\<lparr>sequence_number := sequence_number src_obj + 1\<rparr>
    \<and> sequence_number (snd r) = sequence_number src_obj + 1
    \<and> hello_sequence_number (fst r) = sequence_number src_obj
    \<and> (snd r)\<lparr>sequence_number := sequence_number src_obj\<rparr> = src_obj"
  by (simp add: HelloPacket_init_def Let_def Packet.defs HelloPacket.defs)

subsection \<open>The hello interval\<close>

lemma sample_drone_init: "Drone_init sample_config 0 [(0, 0)] 1 = Inr sample_drone"
  by (simp add: Drone_init_def sample_config_def sample_drone_def py_get_def py_index_def
      numeral_2_eq_2)


lemma link_durations_length:
  "link_durations self is = Inr ds \<Longrightarrow> length ds = length is"
  by (induction "is" arbitrary: ds) (auto split: if_splits sum.splits)


text \<open>
  What a call that returns has done: the distances were recorded, the loop gave one
  estimate for each index below the number of neighbours, the timer is their maximum
  and the interval is the ceiling of \<open>tau\<close> times the timer.
\<close>

lemma update_hello_interval_result:
  assumes "update_hello_interval sim self nbs = Inr s" and "nbs \<noteq> []"
  shows "\<exists>s1 ds. calc_distances sim self nbs = Inr s1
           \<and> link_durations s1 [0..<length nbs] = Inr ds
           \<and> nanmax ds = Inr (link_holding_timer s)
           \<and> hello_interval s = of_int \<lceil>tau s * link_holding_timer s\<rceil>"
  using assms
  by (auto simp: update_hello_interval_def Let_def split: sum.splits)










lemma ceiling_ge_1: "0 < x \<Longrightarrow> (1::real) \<le> of_int \<lceil>x\<rceil>"
proof -
  assume "0 < x"
  then have "0 < \<lceil>x\<rceil>" by simp
  then have "1 \<le> \<lceil>x\<rceil>" by linarith
  then show ?thesis by (metis of_int_1 of_int_le_iff)
qed

text \<open>The interval is at least 1 whenever \<open>tau\<close> times the timer is positive.\<close>

lemma hello_interval_ge_1_if_positive:
  assumes "update_hello_interval sim self nbs = Inr s" and "nbs \<noteq> []"
    and "0 < tau s * link_holding_timer s"
  shows "1 \<le> hello_interval s"
  using update_hello_interval_result [OF assms(1,2)] ceiling_ge_1 [OF assms(3)] by auto

text \<open>
  C3. Drone 1 and its one neighbour, drone 0, stand at the same point: the distance is
  0, the timer is \<open>0 / speed = 0\<close>, and the interval is the ceiling of 0, which is 0.
\<close>

theorem hello_interval_zero:
  "map_sum id link_holding_timer
     (update_hello_interval sample_config (sample_drone\<lparr>identifier := 1\<rparr>)
        [\<lparr>identifier = 0, coords = (0, 0)\<rparr>]) = Inr 0
   \<and> map_sum id hello_interval
     (update_hello_interval sample_config (sample_drone\<lparr>identifier := 1\<rparr>)
        [\<lparr>identifier = 0, coords = (0, 0)\<rparr>]) = Inr 0"
  by (simp add: sample_config_def sample_drone_def py_set_def py_index_def
      update_hello_interval_def link_duration_at_def Let_def)

subsection \<open>Pruning the buffer\<close>

lemma baseline_names:
  "baseline_name ''GEO'' \<and> baseline_name ''RND'' \<and> baseline_name ''GEOS''
   \<and> \<not> baseline_name ''QTAR''"
  by (simp add: baseline_name_def)

lemma nanmin2_min_deadline:
  "nanmin2 (min_deadline ds) d = min_deadline (ds @ [d])"
proof (cases "ds = []")
  case True
  then show ?thesis by (simp add: nanmin2_def min_deadline_def)
next
  case False
  then have "Min (insert d (set ds)) = min (Min (set ds)) d"
    by (simp add: min.commute)
  with False show ?thesis by (simp add: nanmin2_def min_deadline_def)
qed

lemma update_packets_loop_eq:
  "update_packets_loop sim me step buf (tmp, min_deadline ds, n, calls) =
     (tmp @ filter (\<lambda>p. \<not> Packet_is_expired (packets sim p) step) buf,
      min_deadline (ds @ map (\<lambda>p. deadline (event_ref (packets sim p)))
                         (filter (\<lambda>p. \<not> Packet_is_expired (packets sim p) step) buf)),
      n + length (filter (\<lambda>p. Packet_is_expired (packets sim p) step) buf),
      calls @ (if baseline_name (routing_algorithm_name sim) then []
               else concat (map (\<lambda>p. broadcast sim me (identifier (event_ref (packets sim p)))
                                        (event_duration sim) (- 1))
                                (filter (\<lambda>p. Packet_is_expired (packets sim p) step) buf))))"
proof (induction buf arbitrary: tmp ds n calls)
  case Nil
  then show ?case by simp
next
  case (Cons p buf)
  show ?case
  proof (cases "Packet_is_expired (packets sim p) step")
    case True
    then show ?thesis
      using Cons.IH [of tmp ds "n + 1"
          "calls @ (if \<not> baseline_name (routing_algorithm_name sim)
                    then broadcast sim me (identifier (event_ref (packets sim p)))
                           (event_duration sim) (- 1)
                    else [])"]
      by (simp add: Let_def)
  next
    case False
    then show ?thesis
      using Cons.IH [of "tmp @ [p]" "ds @ [deadline (event_ref (packets sim p))]" n calls]
      by (simp add: Let_def nanmin2_min_deadline)
  qed
qed

text \<open>
  C4. After \<open>update_packets\<close> at a step, with \<open>kept\<close> the packets of the buffer that are
  not expired and \<open>expired\<close> the others, both in the order of the buffer: the buffer is
  \<open>kept\<close>; \<open>tightest_event_deadline\<close> is the least deadline of the events of \<open>kept\<close>, and
  \<open>nan\<close> when \<open>kept\<close> is empty; the feedback calls are, for each packet of \<open>expired\<close> in
  turn, one call to the algorithm of every drone of the roster with the identifier of
  the packet's event, the delay \<open>event_duration\<close> and the outcome -1, and there is no
  call when the name of the algorithm is found in \<open>GEORNDGEOS\<close> (as \<open>GEO\<close>, \<open>RND\<close> and
  \<open>GEOS\<close> are); \<open>move_routing\<close> is cleared when \<open>kept\<close> is empty and is left as it was
  otherwise; no other attribute of the drone changes.
\<close>

theorem update_packets_prunes:
  "let kept = filter (\<lambda>p. \<not> Packet_is_expired (packets sim p) step) (Drone_buffer self);
       expired = filter (\<lambda>p. Packet_is_expired (packets sim p) step) (Drone_buffer self);
       self' = fst (update_packets sim me self step);
       calls = snd (update_packets sim me self step)
   in Drone_buffer self' = kept
    \<and> tightest_event_deadline self' =
        (if kept = [] then None
         else Some (Min (set (map (\<lambda>p. deadline (event_ref (packets sim p))) kept))))
    \<and> calls =
        (if baseline_name (routing_algorithm_name sim) then []
         else concat (map (\<lambda>p. broadcast sim me (identifier (event_ref (packets sim p)))
                                  (event_duration sim) (- 1)) expired))
    \<and> move_routing self' = (if kept = [] then False else move_routing self)
    \<and> self' = self\<lparr>tightest_event_deadline := tightest_event_deadline self',
                    Drone_buffer := kept, move_routing := move_routing self'\<rparr>"
proof -
  have e: "None = min_deadline []" by (simp add: min_deadline_def)
  show ?thesis
    unfolding update_packets_def e update_packets_loop_eq
    by (simp add: Let_def min_deadline_def)
qed

text \<open>
  The theorem in the small simulation at step 6: the packet of the event with deadline 5
  is removed, the packet with deadline 8 stays, and each of the two drones gets one
  feedback call for event 100.
\<close>

theorem update_packets_prunes_witness:
  "Drone_buffer (fst (update_packets sample_sim (RosterDrone 0) (drones sample_sim ! 0) 6)) = [1]
   \<and> tightest_event_deadline
        (fst (update_packets sample_sim (RosterDrone 0) (drones sample_sim ! 0) 6)) = Some 8
   \<and> snd (update_packets sample_sim (RosterDrone 0) (drones sample_sim ! 0) 6)
       = [\<lparr>fb_target = 0, fb_drone = RosterDrone 0, fb_id_event = 100, fb_delay = 10,
           fb_outcome = - 1\<rparr>,
          \<lparr>fb_target = 1, fb_drone = RosterDrone 0, fb_id_event = 100, fb_delay = 10,
           fb_outcome = - 1\<rparr>]
   \<and> move_routing (fst (update_packets sample_sim (RosterDrone 0) (drones sample_sim ! 0) 6))"
  using update_packets_prunes [of sample_sim 6 "drones sample_sim ! 0" "RosterDrone 0"]
  by (simp add: Let_def sample_sim_def sample_drone_def sample_packet_def Packet_init_def
      Event_init_def Packet_is_expired_def baseline_name_def broadcast_def upt_rec)

subsection \<open>The hand-off to the depot\<close>

lemma delivered_Nil: "delivered store [] step = store"
  by (simp add: delivered_def)

lemma delivered_Cons:
  "delivered (store(p := (store p)\<lparr>time_delivery := step\<rparr>)) buf step
     = delivered store (p # buf) step"
  by (auto simp: delivered_def fun_eq_iff)

lemma broadcast_cong:
  "drones sim' = drones sim \<Longrightarrow> broadcast sim' = broadcast sim"
  by (simp add: broadcast_def fun_eq_iff)

lemma transfer_loop_eq:
  "transfer_loop cd step buf (sim, calls) =
     (sim\<lparr>drones_packets_to_depot :=
            drones_packets_to_depot sim \<union> set (map (\<lambda>p. (p, step)) buf),
          drones_packets_to_depot_list :=
            drones_packets_to_depot_list sim @ map (\<lambda>p. (p, step)) buf,
          packets := delivered (packets sim) buf step\<rparr>,
      calls @ (if baseline_name (routing_algorithm_name sim) then []
               else concat (map (\<lambda>p. broadcast sim cd (identifier (event_ref (packets sim p)))
                                        (step - current_time (event_ref (packets sim p))) 1)
                                buf)))"
proof (induction buf arbitrary: sim calls)
  case Nil
  then show ?case by (simp add: delivered_Nil)
next
  case (Cons p buf)
  let ?sim3 = "sim\<lparr>drones_packets_to_depot := insert (p, step) (drones_packets_to_depot sim),
                    drones_packets_to_depot_list := drones_packets_to_depot_list sim @ [(p, step)],
                    packets := (packets sim)(p := (packets sim p)\<lparr>time_delivery := step\<rparr>)\<rparr>"
  have b: "broadcast ?sim3 = broadcast sim"
    by (rule broadcast_cong) simp
  have ev: "event_ref (if q = p then (packets sim p)\<lparr>time_delivery := step\<rparr> else packets sim q)
              = event_ref (packets sim q)" for q
    by simp
  show ?case
    by (simp add: Let_def Cons.IH b delivered_Cons ev)
qed

text \<open>
  C6, for a source that is not the depot itself. After \<open>transfer_notified_packets\<close> for
  such a source at a step, with \<open>buf\<close> the buffer of the source: the buffer of the depot
  is its old buffer followed by the references of \<open>buf\<close>, all of them, in order, nothing
  being left out as a duplicate; every packet of \<open>buf\<close> has its delivery time set to the
  step and is otherwise the same object, and no other packet changes; the feedback
  calls are, for each packet of \<open>buf\<close> in turn, one call to the algorithm of every drone
  of the roster with the outcome 1 and the delay \<open>step - event.current_time\<close>, and there
  is no call when the name of the algorithm is found in \<open>GEORNDGEOS\<close>; the roster is
  unchanged, and the buffer of the source is \<open>buf\<close> as before.
\<close>

theorem transfer_notified_packets_from_drone:
  assumes "current_drone \<noteq> TheDepot"
  shows "let buf = all_packets sim current_drone;
       sim' = fst (transfer_notified_packets sim current_drone step);
       calls = snd (transfer_notified_packets sim current_drone step)
   in Depot_buffer (depot sim') = Depot_buffer (depot sim) @ buf
    \<and> (\<forall>p \<in> set buf. packets sim' p = (packets sim p)\<lparr>time_delivery := step\<rparr>)
    \<and> (\<forall>p. p \<notin> set buf \<longrightarrow> packets sim' p = packets sim p)
    \<and> calls =
        (if baseline_name (routing_algorithm_name sim) then []
         else concat (map (\<lambda>p. broadcast sim current_drone
                                  (identifier (event_ref (packets sim p)))
                                  (step - current_time (event_ref (packets sim p))) 1) buf))
    \<and> drones sim' = drones sim
    \<and> all_packets sim' current_drone = buf"
proof -
  obtain i where src: "current_drone = RosterDrone i"
    using assms by (cases current_drone) simp_all
  let ?sim1 = "sim\<lparr>depot := (depot sim)\<lparr>Depot_buffer :=
                   Depot_buffer (depot sim) @ Drone_buffer (drones sim ! i)\<rparr>\<rparr>"
  have b: "broadcast ?sim1 = broadcast sim"
    by (rule broadcast_cong) simp
  show ?thesis
    unfolding src
    by (simp add: transfer_notified_packets_def all_packets_def Let_def transfer_loop_eq b
        delivered_def)
qed

text \<open>
  The theorem in the small simulation: the first drone hands its two packets over at
  step 7, and the events were generated at step 0.
\<close>

theorem transfer_notified_packets_witness:
  "RosterDrone 0 \<noteq> TheDepot
   \<and> all_packets sample_sim (RosterDrone 0) = [0, 1]
   \<and> Depot_buffer (depot (fst (transfer_notified_packets sample_sim (RosterDrone 0) 7))) = [0, 1]
   \<and> time_delivery (packets (fst (transfer_notified_packets sample_sim (RosterDrone 0) 7)) 0) = 7
   \<and> time_delivery (packets (fst (transfer_notified_packets sample_sim (RosterDrone 0) 7)) 1) = 7
   \<and> snd (transfer_notified_packets sample_sim (RosterDrone 0) 7)
       = [\<lparr>fb_target = 0, fb_drone = RosterDrone 0, fb_id_event = 100, fb_delay = 7, fb_outcome = 1\<rparr>,
          \<lparr>fb_target = 1, fb_drone = RosterDrone 0, fb_id_event = 100, fb_delay = 7, fb_outcome = 1\<rparr>,
          \<lparr>fb_target = 0, fb_drone = RosterDrone 0, fb_id_event = 101, fb_delay = 7, fb_outcome = 1\<rparr>,
          \<lparr>fb_target = 1, fb_drone = RosterDrone 0, fb_id_event = 101, fb_delay = 7, fb_outcome = 1\<rparr>]
   \<and> all_packets (fst (transfer_notified_packets sample_sim (RosterDrone 0) 7)) (RosterDrone 0)
       = [0, 1]"
proof -
  have ne: "RosterDrone 0 \<noteq> TheDepot" by simp
  show ?thesis
    using transfer_notified_packets_from_drone [OF ne, of sample_sim 7]
    by (simp add: Let_def all_packets_def sample_sim_def sample_drone_def sample_packet_def
        Packet_init_def Event_init_def baseline_name_def broadcast_def upt_rec Drone.defs Depot.defs)
qed

text \<open>
  The depot as its own source, holding one packet: \<open>packets_to_offload\<close> is the list
  that \<open>self.__buffer += packets_to_offload\<close> extends, so the buffer of the source is
  not what it was.
\<close>

theorem depot_as_its_own_source:
  "all_packets (sample_sim\<lparr>depot := (depot sample_sim)\<lparr>Depot_buffer := [0]\<rparr>\<rparr>) TheDepot = [0]
   \<and> all_packets
        (fst (transfer_notified_packets
                (sample_sim\<lparr>depot := (depot sample_sim)\<lparr>Depot_buffer := [0]\<rparr>\<rparr>) TheDepot 7))
        TheDepot = [0, 0]"
  by (simp add: transfer_notified_packets_def all_packets_def Let_def transfer_loop_eq)


text \<open>The same for every simulation: the depot's buffer is doubled.\<close>

lemma transfer_from_the_depot_itself:
  "Depot_buffer (depot (fst (transfer_notified_packets sim TheDepot step)))
     = Depot_buffer (depot sim) @ Depot_buffer (depot sim)"
  by (simp add: transfer_notified_packets_def all_packets_def Let_def transfer_loop_eq)

subsection \<open>QTAR: feedback and relay selection\<close>

text \<open>
  C5. For an algorithm with the weights of its constructor, a non-zero maximal hop count
  and a non-zero maximal energy: a feedback for an event with the pending pair
  (state, action), where \<open>action\<close> is an index of the value table (\<open>j\<close> is the position it
  names), returns the algorithm with the entry removed and the table changed at that
  position only, to \<open>0.7 * (delay / max_TTL) + 0.2 * 1 + 0.1 * (residual_energy / max_energy)\<close>,
  the energy being that of the drone passed to the feedback. A feedback for an event
  without a pending entry returns the algorithm as it is; so does every feedback for
  the same event after one that has returned.
\<close>

theorem feedback_pending_and_absent:
  "(taken_actions self id_event = Some (state, action)
      \<and> packets_max_ttl sim \<noteq> 0 \<and> drone_max_energy sim \<noteq> 0
      \<and> py_index action (length (q_table self)) = Inr j
      \<and> weight_A self = 7 / 10 \<and> weight_B self = 2 / 10 \<and> weight_C self = 1 / 10
    \<longrightarrow> feedback sim self drone id_event delay outcome =
          Inr (self\<lparr>taken_actions := (taken_actions self)(id_event := None),
                    q_table := (q_table self)[j :=
                        7 / 10 * (real_of_int delay / real_of_int (packets_max_ttl sim))
                      + 2 / 10 * 1
                      + 1 / 10 * (residual_energy drone / drone_max_energy sim)]\<rparr>))
   \<and> (taken_actions self id_event = None
    \<longrightarrow> feedback sim self drone id_event delay outcome = Inr self)
   \<and> (feedback sim self drone id_event delay outcome = Inr after
    \<longrightarrow> feedback sim after drone_b id_event delay_b outcome_b = Inr after)"
proof (intro conjI impI)
  assume h: "taken_actions self id_event = Some (state, action)
      \<and> packets_max_ttl sim \<noteq> 0 \<and> drone_max_energy sim \<noteq> 0
      \<and> py_index action (length (q_table self)) = Inr j
      \<and> weight_A self = 7 / 10 \<and> weight_B self = 2 / 10 \<and> weight_C self = 1 / 10"
  then have pending: "taken_actions self id_event = Some (state, action)"
    and nz: "packets_max_ttl sim \<noteq> 0" "drone_max_energy sim \<noteq> 0"
    and idx: "py_index action (length (q_table self)) = Inr j"
    and w: "weight_A self = 7 / 10" "weight_B self = 2 / 10" "weight_C self = 1 / 10"
    by simp_all
  have "feedback sim self drone id_event delay outcome =
          Inr (self\<lparr>taken_actions := (taken_actions self)(id_event := None),
                    q_table := (q_table self)[j :=
                        weight_A self * (real_of_int delay / real_of_int (packets_max_ttl sim))
                      + weight_B self * 1
                      + weight_C self * (residual_energy drone / drone_max_energy sim)]\<rparr>)"
    using pending nz idx by (simp add: feedback_def Let_def py_set_def)
  then show "feedback sim self drone id_event delay outcome =
          Inr (self\<lparr>taken_actions := (taken_actions self)(id_event := None),
                    q_table := (q_table self)[j :=
                        7 / 10 * (real_of_int delay / real_of_int (packets_max_ttl sim))
                      + 2 / 10 * 1
                      + 1 / 10 * (residual_energy drone / drone_max_energy sim)]\<rparr>)"
    by (simp only: w)
next
  assume "taken_actions self id_event = None"
  then show "feedback sim self drone id_event delay outcome = Inr self"
    by (simp add: feedback_def)
next
  assume "feedback sim self drone id_event delay outcome = Inr after"
  then have "taken_actions after id_event = None"
    by (auto simp: feedback_def Let_def py_set_def split: option.splits if_splits sum.splits)
  then show "feedback sim after drone_b id_event delay_b outcome_b = Inr after"
    by (simp add: feedback_def)
qed

text \<open>
  The theorem at \<open>sample_qtar\<close>: the feedback for event 100 with the delay 3 writes the
  value at index 1 and removes the entry, a second feedback for event 100 changes
  nothing, and neither does a feedback to an algorithm without any entry.
\<close>

theorem feedback_witness:
  "taken_actions sample_qtar 100 = Some (0, 1)
   \<and> feedback sample_config sample_qtar sample_drone 100 3 1
       = Inr \<lparr>taken_actions = Map.empty,
              q_table = [0, 7 / 10 * (3 / 5) + 2 / 10 * 1 + 1 / 10 * (100 / 100)],
              weight_A = 7 / 10, weight_B = 2 / 10, weight_C = 1 / 10\<rparr>
   \<and> feedback sample_config
        \<lparr>taken_actions = Map.empty,
         q_table = [0, 7 / 10 * (3 / 5) + 2 / 10 * 1 + 1 / 10 * (100 / 100)],
         weight_A = 7 / 10, weight_B = 2 / 10, weight_C = 1 / 10\<rparr> sample_drone 100 9 (- 1)
       = Inr \<lparr>taken_actions = Map.empty,
              q_table = [0, 7 / 10 * (3 / 5) + 2 / 10 * 1 + 1 / 10 * (100 / 100)],
              weight_A = 7 / 10, weight_B = 2 / 10, weight_C = 1 / 10\<rparr>
   \<and> taken_actions (QTARRouting_init sample_config) 100 = None
   \<and> feedback sample_config (QTARRouting_init sample_config) sample_drone 100 3 1
       = Inr (QTARRouting_init sample_config)"
proof -
  let ?r = "\<lparr>taken_actions = Map.empty,
             q_table = [0, 7 / 10 * (3 / 5) + 2 / 10 * 1 + 1 / 10 * (100 / 100)],
             weight_A = 7 / 10, weight_B = 2 / 10, weight_C = 1 / 10\<rparr>"
  note at_pending = feedback_pending_and_absent
     [where self = sample_qtar and id_event = 100 and state = 0 and action = 1
        and sim = sample_config and j = 1 and drone = sample_drone and delay = 3 and outcome = 1
        and after = ?r and drone_b = sample_drone and delay_b = 9 and outcome_b = "- 1"]
  note at_absent = feedback_pending_and_absent
     [where self = "QTARRouting_init sample_config" and id_event = 100 and state = 0
        and action = 1 and sim = sample_config and j = 1 and drone = sample_drone
        and delay = 3 and outcome = 1
        and after = ?r and drone_b = sample_drone and delay_b = 9 and outcome_b = "- 1"]
  have pending: "taken_actions sample_qtar 100 = Some (0, 1)"
    by (simp add: sample_qtar_def)
  have first: "feedback sample_config sample_qtar sample_drone 100 3 1 = Inr ?r"
    using at_pending [THEN conjunct1]
    by (simp add: sample_qtar_def QTARRouting_init_def sample_config_def sample_drone_def
        py_index_def numeral_2_eq_2)
  have second: "feedback sample_config ?r sample_drone 100 9 (- 1) = Inr ?r"
    using at_pending [THEN conjunct2, THEN conjunct2] first by simp
  have absent: "taken_actions (QTARRouting_init sample_config) 100 = None"
    by (simp add: QTARRouting_init_def)
  have third: "feedback sample_config (QTARRouting_init sample_config) sample_drone 100 3 1
       = Inr (QTARRouting_init sample_config)"
    using at_absent [THEN conjunct2, THEN conjunct1] absent by simp
  show ?thesis
    using pending first second absent third by simp
qed

lemma py_index_minus_one: "0 < n \<Longrightarrow> py_index (- 1) n = Inr (n - 1)"
  by (auto simp: py_index_def Let_def)

lemma set_argsort: "set (argsort q) = {0..<length q}"
  by (simp add: argsort_def)

text \<open>
  No candidate: no drone near the depot is given, and none of the two-hop neighbours
  that pass the speed test has an identifier that is an index of the value table. On a
  roster that is not empty the call then returns the last drone of the roster and
  records the action -1.
\<close>

lemma relay_selection_no_candidate:
  assumes "two_hop_candidates ths crs sim me packet (two_hop_neighbors me) = Inr sel"
    and "\<forall>r \<in> set sel. \<not> (0 \<le> identifier (drones sim ! r)
                          \<and> identifier (drones sim ! r) < int (length (q_table self)))"
    and "drones sim \<noteq> []"
  shows "relay_selection ths crs sim self me packet (- 1) =
           Inr (length (drones sim) - 1,
                self\<lparr>taken_actions :=
                  (taken_actions self)(identifier (event_ref packet) \<mapsto> (identifier me, - 1))\<rparr>)"
proof -
  have "\<not> (\<exists>droneId \<in> set (argsort (q_table self)).
              int droneId \<in> set (map (\<lambda>r. identifier (drones sim ! r)) sel))"
    using assms(2) by (auto simp: set_argsort)
  then have "find (\<lambda>droneId. int droneId \<in> set (map (\<lambda>r. identifier (drones sim ! r)) sel))
               (argsort (q_table self)) = None"
    unfolding find_None_iff by blast
  then show ?thesis
    using assms(1,3) by (simp add: relay_selection_def Let_def py_index_minus_one)
qed

text \<open>
  C2. In the small simulation the first drone, which has no two-hop neighbour, selects a
  relay for its packet of event 100 without a drone near the depot: the call returns
  drone 1, the last of the roster, and stores the pair (0, -1) for the event.
\<close>

theorem relay_selection_default_drone:
  "relay_selection ths crs sample_sim (QTARRouting_init sample_sim) (drones sample_sim ! 0)
     (packets sample_sim 0) (- 1)
   = Inr (1, (QTARRouting_init sample_sim)\<lparr>taken_actions := [100 \<mapsto> (0, - 1)]\<rparr>)"
proof -
  have "relay_selection ths crs sample_sim (QTARRouting_init sample_sim) (drones sample_sim ! 0)
          (packets sample_sim 0) (- 1)
        = Inr (length (drones sample_sim) - 1,
               (QTARRouting_init sample_sim)\<lparr>taken_actions :=
                 (taken_actions (QTARRouting_init sample_sim))
                   (identifier (event_ref (packets sample_sim 0))
                      \<mapsto> (identifier (drones sample_sim ! 0), - 1))\<rparr>)"
    by (rule relay_selection_no_candidate [where sel = "[]"])
       (simp_all add: sample_sim_def sample_drone_def)
  then show ?thesis
    by (simp add: sample_sim_def sample_drone_def sample_packet_def Packet_init_def
        Event_init_def QTARRouting_init_def)
qed

end
